theory Spec2Isabelle
  imports Complex_Main
begin

section \<open>The production build script, scripts/build.js\<close>

text \<open>
  The script runs one webpack compilation and turns its result into log output, an optional
  stats file and a process exit code. Everything it calls outside the repository (webpack,
  react-dev-utils, fs-extra, bfj) is an input of the model, gathered in the record
  \<open>world\<close>: the model fixes what the script does with each answer, not the answers.
\<close>

subsection \<open>JavaScript values\<close>

text \<open>
  Strings are byte lists. A value that may be \<open>undefined\<close> is an \<open>option\<close>;
  \<open>truthy\<close> is JavaScript's truth test on a string or \<open>undefined\<close>, and
  \<open>js_string\<close> is the conversion done by \<open>+\<close> on a string and such a value.
\<close>

definition nl :: string where
  "nl = [CHR 0x0A]"

definition truthy :: "string option \<Rightarrow> bool" where
  "truthy v = (case v of None \<Rightarrow> False | Some s \<Rightarrow> s \<noteq> [])"

definition js_string :: "string option \<Rightarrow> string" where
  "js_string v = (case v of None \<Rightarrow> ''undefined'' | Some s \<Rightarrow> s)"

text \<open>\<open>String.prototype.toLowerCase\<close>, on the ASCII letters.\<close>

definition toLowerChar :: "char \<Rightarrow> char" where
  "toLowerChar c =
     (case map_of (zip ''ABCDEFGHIJKLMNOPQRSTUVWXYZ'' ''abcdefghijklmnopqrstuvwxyz'') c of
        Some d \<Rightarrow> d
      | None \<Rightarrow> c)"

definition toLowerCase :: "string \<Rightarrow> string" where
  "toLowerCase s = map toLowerChar s"

text \<open>\<open>Array.prototype.join\<close>.\<close>

fun join :: "string list \<Rightarrow> string \<Rightarrow> string" where
  "join [] sep = []"
| "join [x] sep = x"
| "join (x # y # ys) sep = x @ sep @ join (y # ys) sep"

subsection \<open>Numbers\<close>

text \<open>
  A JavaScript number is an IEEE 754 double. The numbers of the script are byte sizes, their
  sums and the quotient of a sum by 1000. \<open>number\<close> holds the doubles that a sum of
  non-negative integers can be: a natural number or \<open>Infinity\<close>. \<open>quotient\<close> holds the
  doubles that such a number divided by 1000 can be, the finite ones as rationals.

  \<open>nearest_double n\<close> is the double nearest to the natural \<open>n\<close>, ties going to the even
  significand: every natural up to \<open>2 ^ 53\<close> is a double; from there on a double has
  53 significant bits, and a result of \<open>2 ^ 1024\<close> or more is \<open>Infinity\<close>. The sum of two
  doubles is the double nearest to their exact sum, which is \<open>plus_number\<close>.
\<close>

datatype number = Num nat | Infinity

datatype quotient = Quot rat | QuotInfinity

fun log2 :: "nat \<Rightarrow> nat" where
  "log2 n = (if n < 2 then 0 else Suc (log2 (n div 2)))"

declare log2.simps [simp del]

definition round_half_even :: "nat \<Rightarrow> nat \<Rightarrow> nat" where
  "round_half_even n d =
     (let q = n div d; r = n mod d
      in if 2 * r < d \<or> (2 * r = d \<and> even q) then q else q + 1)"

definition nearest_double :: "nat \<Rightarrow> number" where
  "nearest_double n =
     (if n \<le> 2 ^ 53 then Num n
      else let k = log2 n - 52; m = round_half_even n (2 ^ k) * 2 ^ k
           in if m < 2 ^ 1024 then Num m else Infinity)"

definition plus_number :: "number \<Rightarrow> nat \<Rightarrow> number" where
  "plus_number x n = (case x of Infinity \<Rightarrow> Infinity | Num a \<Rightarrow> nearest_double (a + n))"

text \<open>
  \<open>div_1000 a\<close> is the double nearest to \<open>a / 1000\<close> for a natural \<open>a\<close> that is a double:
  with \<open>e\<close> the exponent of the quotient (\<open>2 ^ e \<le> a / 1000 < 2 ^ (e + 1)\<close>, found from the
  bit lengths of \<open>a\<close> and of 1000), the quotient is rounded to a multiple of
  \<open>2 ^ (e - 52)\<close>. \<open>per_1000 x\<close> is \<open>Math.round(x) / 1000\<close> for a number \<open>x\<close> as above:
  \<open>Math.round\<close> leaves an integer and \<open>Infinity\<close> as they are.
\<close>

definition div_1000 :: "nat \<Rightarrow> rat" where
  "div_1000 a =
     (if a = 0 then 0
      else let l = log2 a;
               e = (if 9 \<le> l then (if 1000 * 2 ^ (l - 9) \<le> a then int l - 9 else int l - 10)
                    else (if 1000 \<le> a * 2 ^ (9 - l) then int l - 9 else int l - 10));
               s = 52 - e
           in if 0 \<le> s then of_nat (round_half_even (a * 2 ^ nat s) 1000) / 2 ^ nat s
              else of_nat (round_half_even a (1000 * 2 ^ nat (- s)) * 2 ^ nat (- s)))"

definition per_1000 :: "number \<Rightarrow> quotient" where
  "per_1000 x = (case x of Infinity \<Rightarrow> QuotInfinity | Num a \<Rightarrow> Quot (div_1000 a))"

subsection \<open>Errors\<close>

text \<open>
  An error object: its \<open>message\<close>, and its own property \<open>postcssNode\<close> when it has one
  (\<open>None\<close> when \<open>hasOwnProperty\<close> answers false). \<open>new Error(s)\<close> has the message
  \<open>s\<close> and no such property.
\<close>

record postcss_node =
  selector :: "string option"

record js_error =
  message :: "string option"
  postcssNode :: "postcss_node option"

definition new_Error :: "string \<Rightarrow> js_error" where
  "new_Error s = \<lparr>message = Some s, postcssNode = None\<rparr>"

subsection \<open>Data of the build\<close>

text \<open>
  \<open>messages\<close> is the object with \<open>errors\<close> and \<open>warnings\<close> that
  \<open>formatWebpackMessages\<close> takes and returns. A \<open>stats\<close> object answers two calls:
  \<open>toJson({ all: false, warnings: true, errors: true })\<close> and \<open>toJson()\<close>.
  \<open>file_sizes\<close> is what \<open>measureFileSizesBeforeBuild\<close> resolves to; its \<open>sizes\<close>
  object may be missing, and is the list of its properties, file name and byte size, in
  the order in which \<open>Object.keys\<close> lists them. A byte size is a non-negative integer that
  is a double.
\<close>

record messages =
  errors :: "string list"
  warnings :: "string list"

record 'j stats =
  toJson_messages :: messages
  toJson :: 'j

record file_sizes =
  root :: string
  sizes :: "(string \<times> nat) list option"

record 'j resolveArgs =
  ra_stats :: "'j stats option"
  ra_previousFileSizes :: file_sizes
  ra_warnings :: "string list"

text \<open>The paths of config/paths.js that the script reads.\<close>

record paths =
  appHtml :: string
  appIndexJs :: string
  appBuild :: string
  appPublic :: string
  appPath :: string

text \<open>
  The inputs of one run: the command line, the two environment variables, the files that
  exist, and the answer of every external call (for a call that can throw or reject,
  \<open>Some e\<close> or \<open>Inl e\<close> is the error). \<open>compiler_run\<close> is the pair \<open>(err, stats)\<close>
  handed to the callback of \<open>compiler.run\<close>; \<open>bfj_write\<close> is \<open>None\<close> when the write
  succeeds and \<open>Some s\<close> when it fails with an error whose string conversion is \<open>s\<close>.
  \<open>chalk_underline\<close> is \<open>chalk.underline\<close>, which returns its argument with or without
  escape codes around it, as the terminal allows.
\<close>

record 'j world =
  process_argv :: "string list"
  env_CI :: "string option"
  env_TSC_COMPILE_ON_ERROR :: "string option"
  fileExists :: "string \<Rightarrow> bool"
  checkBrowsers :: "js_error option"
  measureFileSizesBeforeBuild :: "js_error + file_sizes"
  emptyDirSync :: "js_error option"
  copySync :: "js_error option"
  compiler_run :: "js_error option \<times> 'j stats option"
  formatWebpackMessages :: "messages \<Rightarrow> messages"
  bfj_write :: "string option"
  measureFileSizesAfterBuild :: "js_error + file_sizes"
  printFileSizesAfterBuild :: "js_error option"
  printBuildError :: "js_error option"
  chalk_underline :: "string \<Rightarrow> string"

text \<open>
  What a run does, in order. \<open>Logged\<close> is a call of one of the four functions of
  config/logger.js with its first argument (the further arguments, which the logger only
  prints, are left out); \<open>TotalSizes\<close> is the call \<open>info('Total sizes, KB:', ...)\<close> with
  the two figures \<open>before\<close> and \<open>after\<close> of its second argument.
\<close>

datatype level = Log | Info | Warn | Error

datatype 'j event =
    Logged level string
  | ConsoleLog
  | CheckBrowsers
  | MeasureFileSizes string
  | EmptyDir string
  | CopyPublicFolder
  | CompilerRun
  | BfjWrite string 'j
  | TotalSizes quotient quotient
  | PrintFileSizes
  | PrintBuildError js_error

text \<open>
  How the promise of \<open>build\<close> ends. \<open>CallbackThrew\<close>: the callback read a property of
  an undefined \<open>stats\<close>, so the exception leaves through the caller of the callback and
  the promise is never settled.
\<close>

datatype 'j settled = Resolved "'j resolveArgs" | Rejected js_error | CallbackThrew

text \<open>How a handler of the promise chain ends, and how the process ends.\<close>

datatype handler_end = Returned | Threw js_error | Exited nat

datatype exit = Exit nat | Escaped

subsection \<open>Lines 51-52: the stats flag\<close>

text \<open>\<open>argv.indexOf('--stats') !== -1\<close>, for \<open>argv = process.argv.slice(2)\<close>.\<close>

definition writeStatsJson :: "string list \<Rightarrow> bool" where
  "writeStatsJson pargv = (''--stats'' \<in> set (drop 2 pargv))"

subsection \<open>Lines 211-219: getFilesTotalSize\<close>

definition Object_keys :: "(string \<times> nat) list \<Rightarrow> string list" where
  "Object_keys obj = remdups (map fst obj)"

text \<open>
  \<open>files.sizes[el]\<close> is defined for every key that \<open>Object.keys\<close> lists; \<open>lookup_size\<close>
  gives that size.
\<close>

definition lookup_size :: "(string \<times> nat) list \<Rightarrow> string \<Rightarrow> nat" where
  "lookup_size obj el = (case map_of obj el of Some n \<Rightarrow> n | None \<Rightarrow> 0)"

definition getFilesTotalSize :: "file_sizes \<Rightarrow> number" where
  "getFilesTotalSize files =
     (case sizes files of
        None \<Rightarrow> Num 0
      | Some obj \<Rightarrow>
          fold (\<lambda>el result. plus_number result (lookup_size obj el)) (Object_keys obj) (Num 0))"

subsection \<open>Lines 132-202: build\<close>

text \<open>
  Lines 139-163, the messages of the compilation. \<open>Inl\<close> is an early end of the callback:
  the rejection with an error that has no message, or the exception of \<open>stats.toJson\<close> on
  an undefined \<open>stats\<close>. \<open>errMessage\<close> is the local variable of that name, for an error
  whose message is \<open>m\<close>.
\<close>

definition errMessage :: "string \<Rightarrow> js_error \<Rightarrow> string" where
  "errMessage m err =
     (case postcssNode err of
        None \<Rightarrow> m
      | Some node \<Rightarrow> m @ nl @ ''CompileError: Begins at CSS selector '' @ js_string (selector node))"

definition build_messages :: "'j world \<Rightarrow> ('j event list \<times> 'j settled) + messages" where
  "build_messages w =
     (case fst (compiler_run w) of
        Some err \<Rightarrow>
          (case message err of
             None \<Rightarrow> Inl ([Logged Error ''Unknown error''], Rejected err)
           | Some m \<Rightarrow>
               if m = [] then Inl ([Logged Error ''Unknown error''], Rejected err)
               else Inr (formatWebpackMessages w \<lparr>errors = [errMessage m err], warnings = []\<rparr>))
      | None \<Rightarrow>
          (case snd (compiler_run w) of
             None \<Rightarrow> Inl ([], CallbackThrew)
           | Some st \<Rightarrow> Inr (formatWebpackMessages w (toJson_messages st))))"

text \<open>
  Lines 173-175, the first two conjuncts of the test that turns warnings into a failure.
  \<open>process.env.CI\<close> is a string whenever it is defined, so the \<open>typeof\<close> test never
  decides.
\<close>

definition strictCI :: "string option \<Rightarrow> bool" where
  "strictCI ci = (truthy ci \<and> (case ci of None \<Rightarrow> True | Some s \<Rightarrow> toLowerCase s \<noteq> ''false''))"

text \<open>Lines 164-199, the decision on the messages.\<close>

definition build_settle ::
  "'j world \<Rightarrow> paths \<Rightarrow> file_sizes \<Rightarrow> messages \<Rightarrow> 'j event list \<times> 'j settled" where
  "build_settle w p previousFileSizes msgs =
     (if errors msgs \<noteq> [] then
        ([], Rejected (new_Error (join (take 1 (errors msgs)) (nl @ nl))))
      else if strictCI (env_CI w) \<and> warnings msgs \<noteq> [] then
        ([Logged Warn (nl @ ''Treating warnings as errors because process.env.CI = true.'' @ nl
             @ ''Most CI servers set it automatically.'' @ nl)],
         Rejected (new_Error (join (warnings msgs) (nl @ nl))))
      else
        (let resolveArgs = \<lparr>ra_stats = snd (compiler_run w),
               ra_previousFileSizes = previousFileSizes, ra_warnings = warnings msgs\<rparr>
         in if writeStatsJson (process_argv w) then
              (case snd (compiler_run w) of
                 None \<Rightarrow> ([], CallbackThrew)
               | Some st \<Rightarrow>
                   ([BfjWrite (appBuild p @ ''/bundle-stats.json'') (toJson st)],
                    (case bfj_write w of
                       None \<Rightarrow> Resolved resolveArgs
                     | Some e \<Rightarrow> Rejected (new_Error e))))
            else ([], Resolved resolveArgs)))"

definition build :: "'j world \<Rightarrow> paths \<Rightarrow> file_sizes \<Rightarrow> 'j event list \<times> 'j settled" where
  "build w p previousFileSizes =
     (let start = [Logged Info ''Creating an optimized production build...'', CompilerRun]
      in case build_messages w of
           Inl (evs, r) \<Rightarrow> (start @ evs, r)
         | Inr msgs \<Rightarrow>
             (case build_settle w p previousFileSizes msgs of (evs, r) \<Rightarrow> (start @ evs, r)))"

subsection \<open>Lines 76-129: the handlers of the promise chain\<close>

text \<open>Lines 76-110, the handler of a resolved build.\<close>

definition onFulfilled ::
  "'j world \<Rightarrow> paths \<Rightarrow> 'j resolveArgs \<Rightarrow> 'j event list \<times> handler_end" where
  "onFulfilled w p args =
     (let report =
            (if ra_warnings args \<noteq> [] then
               [Logged Warn (''Compiled with warnings.'' @ nl), ConsoleLog,
                Logged Warn (nl @ ''Search for the '' @ chalk_underline w ''keywords''
                  @ '' to learn more about each warning.''),
                Logged Info (''To ignore, add '' @ [CHR 0x22] @ ''// eslint-disable-next-line''
                  @ [CHR 0x22] @ ''  to the line before.'' @ nl)]
             else [Logged Info (''Compiled successfully.'' @ nl)]);
          before = getFilesTotalSize (ra_previousFileSizes args);
          measured = report @ [MeasureFileSizes (appBuild p)]
      in case measureFileSizesAfterBuild w of
           Inl e \<Rightarrow> (measured, Threw e)
         | Inr newFiles \<Rightarrow>
             (let after = getFilesTotalSize newFiles;
                  evs = measured @ [TotalSizes (per_1000 before) (per_1000 after),
                          Logged Log (''File sizes after gzip:'' @ nl), PrintFileSizes]
              in case printFileSizesAfterBuild w of
                   Some e \<Rightarrow> (evs, Threw e)
                 | None \<Rightarrow> (evs @ [ConsoleLog], Returned)))"

text \<open>Lines 111-124, the handler of a rejection.\<close>

definition onRejected :: "'j world \<Rightarrow> js_error \<Rightarrow> 'j event list \<times> handler_end" where
  "onRejected w err =
     (let tscCompileOnError = (env_TSC_COMPILE_ON_ERROR w = Some ''true'')
      in if tscCompileOnError then
           ([Logged Warn (''Compiled with the following type errors (you may want to check these before deploying your app):'' @ nl),
             PrintBuildError err],
            (case printBuildError w of Some e \<Rightarrow> Threw e | None \<Rightarrow> Returned))
         else
           ([Logged Error (''Failed to compile.'' @ nl), PrintBuildError err],
            (case printBuildError w of Some e \<Rightarrow> Threw e | None \<Rightarrow> Exited 1)))"

text \<open>Lines 126-129, the final catch: \<open>err.message || 'Undefined error'\<close> is logged.\<close>

definition onCatch :: "js_error \<Rightarrow> 'j event list \<times> exit" where
  "onCatch err =
     ([Logged Error (if truthy (message err) then js_string (message err) else ''Undefined error'')],
      Exit 1)"

text \<open>
  The end of the chain \<open>.then(onFulfilled, onRejected).catch(onCatch)\<close>: an exception of
  either handler goes to the catch; a handler that returns lets the process end by itself,
  with exit code 0. \<open>after_events\<close> puts the events of the steps already done in front.
\<close>

definition after_events :: "'j event list \<Rightarrow> 'j event list \<times> exit \<Rightarrow> 'j event list \<times> exit" where
  "after_events evs r = (evs @ fst r, snd r)"

definition finish :: "'j event list \<times> handler_end \<Rightarrow> 'j event list \<times> exit" where
  "finish r =
     (case r of
        (evs, Returned) \<Rightarrow> (evs, Exit 0)
      | (evs, Exited n) \<Rightarrow> (evs, Exit n)
      | (evs, Threw e) \<Rightarrow> after_events evs (onCatch e))"

subsection \<open>Lines 37-43 and 54-129: the run\<close>

text \<open>
  Modelled from the spec: react-dev-utils/checkRequiredFiles is not among the sources. It is
  taken to answer true exactly when every listed file exists.
\<close>

definition checkRequiredFiles :: "(string \<Rightarrow> bool) \<Rightarrow> string list \<Rightarrow> bool" where
  "checkRequiredFiles ex files = list_all ex files"

text \<open>
  Lines 54-129. A rejection of \<open>checkBrowsers\<close> or \<open>measureFileSizesBeforeBuild\<close> and an
  exception of \<open>emptyDirSync\<close> or \<open>copySync\<close> skip the handlers without a rejection
  callback and arrive, like a rejection of \<open>build\<close>, at \<open>onRejected\<close>.
\<close>

definition chain :: "'j world \<Rightarrow> paths \<Rightarrow> 'j event list \<times> exit" where
  "chain w p =
     after_events [Logged Info ''Build server settings:'', CheckBrowsers]
       (case checkBrowsers w of
          Some e \<Rightarrow> finish (onRejected w e)
        | None \<Rightarrow>
            after_events [MeasureFileSizes (appBuild p)]
              (case measureFileSizesBeforeBuild w of
                 Inl e \<Rightarrow> finish (onRejected w e)
               | Inr previousFileSizes \<Rightarrow>
                   after_events [EmptyDir (appBuild p)]
                     (case emptyDirSync w of
                        Some e \<Rightarrow> finish (onRejected w e)
                      | None \<Rightarrow>
                          after_events [CopyPublicFolder]
                            (case copySync w of
                               Some e \<Rightarrow> finish (onRejected w e)
                             | None \<Rightarrow>
                                 (case build w p previousFileSizes of
                                    (evs, Resolved args) \<Rightarrow>
                                      after_events evs (finish (onFulfilled w p args))
                                  | (evs, Rejected e) \<Rightarrow>
                                      after_events evs (finish (onRejected w e))
                                  | (evs, CallbackThrew) \<Rightarrow> (evs, Escaped))))))"

text \<open>Lines 37-43, the guard, and then the chain.\<close>

definition run :: "'j world \<Rightarrow> paths \<Rightarrow> 'j event list \<times> exit" where
  "run w p =
     (if \<not> checkRequiredFiles (fileExists w) [appHtml p, appIndexJs p] then
        ([Logged Error ''Either fields are missing:''], Exit 1)
      else chain w p)"

subsection \<open>Reading a run\<close>

fun isBfjWrite :: "'j event \<Rightarrow> bool" where
  "isBfjWrite (BfjWrite path j) = True"
| "isBfjWrite e = False"

text \<open>
  The run gets as far as the call of \<open>build\<close>, with \<open>prev\<close> the sizes measured before:
  both required files exist and none of the steps before the compilation fails.
\<close>

definition reaches_build :: "'j world \<Rightarrow> paths \<Rightarrow> file_sizes \<Rightarrow> bool" where
  "reaches_build w p prev =
     (fileExists w (appHtml p) \<and> fileExists w (appIndexJs p) \<and> checkBrowsers w = None \<and>
      measureFileSizesBeforeBuild w = Inr prev \<and> emptyDirSync w = None \<and> copySync w = None)"

definition before_build :: "paths \<Rightarrow> 'j event list" where
  "before_build p =
     [Logged Info ''Build server settings:'', CheckBrowsers, MeasureFileSizes (appBuild p),
      EmptyDir (appBuild p), CopyPublicFolder]"

subsection \<open>Example runs\<close>

text \<open>
  A run in which every external call succeeds, with the command-line arguments, the two
  environment variables and the answer of the compiler left open; \<open>formatWebpackMessages\<close>
  and \<open>chalk.underline\<close> return their argument.
\<close>

definition paths0 :: paths where
  "paths0 = \<lparr>appHtml = ''public/index.html'', appIndexJs = ''src/index.tsx'',
     appBuild = ''build'', appPublic = ''public'', appPath = ''.''\<rparr>"

definition stats0 :: "string list \<Rightarrow> string list \<Rightarrow> string stats" where
  "stats0 es ws = \<lparr>toJson_messages = \<lparr>errors = es, warnings = ws\<rparr>, toJson = ''{}''\<rparr>"

definition world0 ::
  "string list \<Rightarrow> string option \<Rightarrow> string option \<Rightarrow>
   js_error option \<times> string stats option \<Rightarrow> string world" where
  "world0 args ci tsc res =
     \<lparr>process_argv = ''node'' # ''scripts/build.js'' # args,
      env_CI = ci,
      env_TSC_COMPILE_ON_ERROR = tsc,
      fileExists = (\<lambda>f. True),
      checkBrowsers = None,
      measureFileSizesBeforeBuild = Inr \<lparr>root = ''build'', sizes = Some [(''a'', 100), (''b'', 200)]\<rparr>,
      emptyDirSync = None,
      copySync = None,
      compiler_run = res,
      formatWebpackMessages = (\<lambda>m. m),
      bfj_write = None,
      measureFileSizesAfterBuild = Inr \<lparr>root = ''build'', sizes = Some [(''a'', 150), (''b'', 150)]\<rparr>,
      printFileSizesAfterBuild = None,
      printBuildError = None,
      chalk_underline = (\<lambda>s. s)\<rparr>"

section \<open>Properties\<close>

subsection \<open>Auxiliary facts\<close>

lemma nearest_double_exact: "n \<le> 2 ^ 53 \<Longrightarrow> nearest_double n = Num n"
  by (simp add: nearest_double_def)

lemma fold_plus_number:
  "a + sum_list (map f xs) \<le> 2 ^ 53 \<Longrightarrow>
   fold (\<lambda>el result. plus_number result (f el)) xs (Num a) = Num (a + sum_list (map f xs))"
proof (induction xs arbitrary: a)
  case Nil
  then show ?case by simp
next
  case (Cons x xs)
  from Cons.prems have le: "a + f x \<le> 2 ^ 53" and rest: "(a + f x) + sum_list (map f xs) \<le> 2 ^ 53"
    by simp_all
  have "plus_number (Num a) (f x) = Num (a + f x)"
    using le by (simp add: plus_number_def nearest_double_exact)
  with Cons.IH [OF rest] show ?case
    by (simp add: add.assoc)
qed

lemma build_errors:
  assumes "build_messages w = Inr msgs" and "errors msgs = e # es"
  shows "build w p prev =
           ([Logged Info ''Creating an optimized production build...'', CompilerRun],
            Rejected (new_Error e))"
  using assms by (simp add: build_def build_settle_def)

lemma build_messages_env_CI: "build_messages (w\<lparr>env_CI := ci\<rparr>) = build_messages w"
  by (simp add: build_messages_def split: option.splits)

lemma run_reaches_build:
  assumes "reaches_build w p prev"
  shows "run w p =
           (case build w p prev of
              (evs, Resolved args) \<Rightarrow>
                after_events (before_build p @ evs) (finish (onFulfilled w p args))
            | (evs, Rejected e) \<Rightarrow>
                after_events (before_build p @ evs) (finish (onRejected w e))
            | (evs, CallbackThrew) \<Rightarrow> (before_build p @ evs, Escaped))"
proof -
  obtain evs r where b: "build w p prev = (evs, r)"
    by (cases "build w p prev") simp
  have c: "chain w p =
      after_events [Logged Info ''Build server settings:'', CheckBrowsers]
        (after_events [MeasureFileSizes (appBuild p)]
          (after_events [EmptyDir (appBuild p)]
            (after_events [CopyPublicFolder]
              (case r of
                 Resolved args \<Rightarrow> after_events evs (finish (onFulfilled w p args))
               | Rejected e \<Rightarrow> after_events evs (finish (onRejected w e))
               | CallbackThrew \<Rightarrow> (evs, Escaped)))))"
    using assms unfolding reaches_build_def chain_def by (simp add: b)
  have r: "run w p = chain w p"
    using assms unfolding reaches_build_def run_def checkRequiredFiles_def by simp
  show ?thesis
    unfolding r c b by (cases r) (simp_all add: after_events_def before_build_def)
qed

lemma finish_onRejected_exit:
  "snd (finish (onRejected w err)) =
     Exit (if env_TSC_COMPILE_ON_ERROR w = Some ''true'' \<and> printBuildError w = None then 0 else 1)"
  by (simp add: finish_def onRejected_def onCatch_def after_events_def split: option.splits)

lemma run_rejected:
  assumes "reaches_build w p prev" and "snd (build w p prev) = Rejected err"
  shows "snd (run w p) =
     Exit (if env_TSC_COMPILE_ON_ERROR w = Some ''true'' \<and> printBuildError w = None then 0 else 1)"
proof -
  obtain evs where b: "build w p prev = (evs, Rejected err)"
    using assms(2) by (cases "build w p prev") simp
  show ?thesis
    unfolding run_reaches_build [OF assms(1)] b
    by (simp add: finish_onRejected_exit after_events_def)
qed

lemma finish_threw:
  assumes "snd h = Threw e"
  shows "finish h =
           (fst h @ [Logged Error (case message e of None \<Rightarrow> ''Undefined error''
                 | Some m \<Rightarrow> if m = [] then ''Undefined error'' else m)], Exit 1)"
proof -
  obtain hevs where "h = (hevs, Threw e)"
    using assms by (cases h) simp
  then show ?thesis
    by (simp add: finish_def onCatch_def after_events_def truthy_def js_string_def
        split: option.splits)
qed

lemma strictCI_iff:
  "strictCI ci \<longleftrightarrow> (\<exists>s. ci = Some s \<and> s \<noteq> [] \<and> toLowerCase s \<noteq> ''false'')"
  by (cases ci) (simp_all add: strictCI_def truthy_def)

lemma build_warnings_strict:
  assumes "build_messages w = Inr msgs" and "errors msgs = []" and "warnings msgs \<noteq> []"
    and "strictCI (env_CI w)"
  shows "snd (build w p prev) = Rejected (new_Error (join (warnings msgs) (nl @ nl)))"
  using assms by (simp add: build_def build_settle_def)

lemma build_resolves:
  assumes "build_messages w = Inr msgs" and "errors msgs = []"
    and "\<not> (strictCI (env_CI w) \<and> warnings msgs \<noteq> [])"
    and "writeStatsJson (process_argv w) \<Longrightarrow> snd (compiler_run w) \<noteq> None \<and> bfj_write w = None"
  shows "snd (build w p prev) =
           Resolved \<lparr>ra_stats = snd (compiler_run w), ra_previousFileSizes = prev,
             ra_warnings = warnings msgs\<rparr>"
proof (cases "writeStatsJson (process_argv w)")
  case True
  with assms(4) obtain st where "snd (compiler_run w) = Some st" and "bfj_write w = None"
    by auto
  with True assms(1-3) show ?thesis
    by (simp add: build_def build_settle_def)
next
  case False
  with assms(1-3) show ?thesis
    by (simp add: build_def build_settle_def)
qed

lemmas run_defs = world0_def paths0_def stats0_def run_def chain_def build_def
  build_messages_def build_settle_def onFulfilled_def onRejected_def onCatch_def finish_def
  after_events_def checkRequiredFiles_def strictCI_def truthy_def js_string_def
  toLowerCase_def toLowerChar_def new_Error_def nl_def writeStatsJson_def
  getFilesTotalSize_def Object_keys_def lookup_size_def errMessage_def reaches_build_def
  before_build_def plus_number_def nearest_double_def per_1000_def div_1000_def
  round_half_even_def

subsection \<open>The first error only\<close>

text \<open>
  C1. When the error sequence of the formatted messages is not empty, the promise of
  \<open>build\<close> is rejected with an error made of one entry, the first error of the sequence,
  however many errors follow it.
\<close>

theorem build_first_error_only:
  assumes "build_messages w = Inr msgs" and "errors msgs = e # es"
  shows "snd (build w p prev) = Rejected (new_Error e) \<and>
         join (take 1 (errors msgs)) (nl @ nl) = e"
  using build_errors [OF assms] assms(2) by simp

theorem build_first_error_only_witness:
  "build_messages (world0 [] None None (None, Some (stats0 [''e1'', ''e2'', ''e3''] [''w'']))) =
     Inr \<lparr>errors = [''e1'', ''e2'', ''e3''], warnings = [''w'']\<rparr> \<and>
   snd (build (world0 [] None None (None, Some (stats0 [''e1'', ''e2'', ''e3''] [''w''])))
          paths0 \<lparr>root = ''build'', sizes = None\<rparr>) = Rejected (new_Error ''e1'')"
  using build_first_error_only
    [of "world0 [] None None (None, Some (stats0 [''e1'', ''e2'', ''e3''] [''w'']))"
      "\<lparr>errors = [''e1'', ''e2'', ''e3''], warnings = [''w'']\<rparr>" "''e1''" "[''e2'', ''e3'']"
      paths0 "\<lparr>root = ''build'', sizes = None\<rparr>"]
  by (simp add: build_messages_def world0_def stats0_def)

subsection \<open>Errors come before warnings\<close>

text \<open>
  C5. When the error sequence is not empty the promise of \<open>build\<close> is rejected with the first
  error, whatever the warnings are and whatever the value of the environment variable CI is:
  the test of the errors comes first, and the notice that warnings are treated as errors
  is never logged.
\<close>

theorem errors_before_warnings:
  assumes "build_messages w = Inr msgs" and "errors msgs \<noteq> []"
  shows "build (w\<lparr>env_CI := ci\<rparr>) p prev =
           ([Logged Info ''Creating an optimized production build...'', CompilerRun],
            Rejected (new_Error (hd (errors msgs))))"
proof -
  obtain e es where "errors msgs = e # es"
    using assms(2) by (cases "errors msgs") auto
  moreover have "build_messages (w\<lparr>env_CI := ci\<rparr>) = Inr msgs"
    using assms(1) by (simp add: build_messages_env_CI)
  ultimately show ?thesis
    using build_errors by fastforce
qed

theorem errors_before_warnings_witness:
  "build_messages (world0 [] None None (None, Some (stats0 [''e1''] [''w1'', ''w2''])) ) =
     Inr \<lparr>errors = [''e1''], warnings = [''w1'', ''w2'']\<rparr> \<and>
   errors \<lparr>errors = [''e1''], warnings = [''w1'', ''w2'']\<rparr> \<noteq> [] \<and>
   build ((world0 [] None None (None, Some (stats0 [''e1''] [''w1'', ''w2''])))
            \<lparr>env_CI := Some ''true''\<rparr>) paths0 \<lparr>root = ''build'', sizes = None\<rparr> =
     ([Logged Info ''Creating an optimized production build...'', CompilerRun],
      Rejected (new_Error ''e1''))"
  using errors_before_warnings
    [of "world0 [] None None (None, Some (stats0 [''e1''] [''w1'', ''w2'']))"
      "\<lparr>errors = [''e1''], warnings = [''w1'', ''w2'']\<rparr>" "Some ''true''"
      paths0 "\<lparr>root = ''build'', sizes = None\<rparr>"]
  by (simp add: build_messages_def world0_def stats0_def)

subsection \<open>The total size of a snapshot\<close>

text \<open>
  C8, as amended. For a snapshot whose sizes add up to at most \<open>2 ^ 53\<close> bytes, the range
  in which JavaScript adds integers exactly, the total computed by \<open>getFilesTotalSize\<close> is
  the sum, over the files of the size mapping, of the size recorded for the file; the
  snapshots {a: 100, b: 200} and {a: 150, b: 150} both total 300, and a snapshot without a
  size mapping totals 0. The figure reported after a resolved build is not this total but
  the total divided by 1000, for the snapshot taken before and for the one taken after:
  for a total of 300, the double nearest to 0.3.
\<close>

theorem getFilesTotalSize_sum:
  assumes "(\<Sum>k \<in> fst ` set obj. the (map_of obj k)) \<le> 2 ^ 53"
  shows "getFilesTotalSize \<lparr>root = r, sizes = Some obj\<rparr> =
           Num (\<Sum>k \<in> fst ` set obj. the (map_of obj k)) \<and>
         getFilesTotalSize \<lparr>root = r, sizes = None\<rparr> = Num 0 \<and>
         getFilesTotalSize \<lparr>root = r, sizes = Some [(''a'', 100), (''b'', 200)]\<rparr> = Num 300 \<and>
         getFilesTotalSize \<lparr>root = r, sizes = Some [(''a'', 150), (''b'', 150)]\<rparr> = Num 300 \<and>
         per_1000 (Num 300) = Quot (5404319552844595 / 2 ^ 54) \<and>
         (measureFileSizesAfterBuild w = Inr newFiles \<longrightarrow>
            TotalSizes (per_1000 (getFilesTotalSize (ra_previousFileSizes args)))
                (per_1000 (getFilesTotalSize newFiles))
              \<in> set (fst (onFulfilled w p args)))"
proof -
  have d: "distinct (Object_keys obj)" and s: "set (Object_keys obj) = fst ` set obj"
    by (simp_all add: Object_keys_def)
  have l: "(\<Sum>k \<in> fst ` set obj. lookup_size obj k) = (\<Sum>k \<in> fst ` set obj. the (map_of obj k))"
    by (rule sum.cong) (auto simp: lookup_size_def map_of_eq_None_iff split: option.splits)
  have "sum_list (map (lookup_size obj) (Object_keys obj)) = (\<Sum>k \<in> set (Object_keys obj). lookup_size obj k)"
    using d by (simp add: sum.distinct_set_conv_list)
  then have t: "sum_list (map (lookup_size obj) (Object_keys obj)) =
                  (\<Sum>k \<in> fst ` set obj. the (map_of obj k))"
    by (simp add: s l)
  have "0 + sum_list (map (lookup_size obj) (Object_keys obj)) \<le> 2 ^ 53"
    using assms by (simp add: t)
  from fold_plus_number [OF this]
  have general: "getFilesTotalSize \<lparr>root = r, sizes = Some obj\<rparr> =
           Num (\<Sum>k \<in> fst ` set obj. the (map_of obj k))"
    by (simp add: getFilesTotalSize_def t)
  have none: "getFilesTotalSize \<lparr>root = r, sizes = None\<rparr> = Num 0"
    by (simp add: getFilesTotalSize_def)
  have before: "getFilesTotalSize \<lparr>root = r, sizes = Some [(''a'', 100), (''b'', 200)]\<rparr> = Num 300"
    by (simp add: getFilesTotalSize_def Object_keys_def lookup_size_def plus_number_def
        nearest_double_def)
  have after: "getFilesTotalSize \<lparr>root = r, sizes = Some [(''a'', 150), (''b'', 150)]\<rparr> = Num 300"
    by (simp add: getFilesTotalSize_def Object_keys_def lookup_size_def plus_number_def
        nearest_double_def)
  have figure: "per_1000 (Num 300) = Quot (5404319552844595 / 2 ^ 54)"
    by (simp add: per_1000_def div_1000_def log2.simps round_half_even_def Let_def)
  have reported: "measureFileSizesAfterBuild w = Inr newFiles \<longrightarrow>
            TotalSizes (per_1000 (getFilesTotalSize (ra_previousFileSizes args)))
                (per_1000 (getFilesTotalSize newFiles))
              \<in> set (fst (onFulfilled w p args))"
    by (simp add: onFulfilled_def Let_def split: option.splits)
  from general none before after figure reported show ?thesis by blast
qed

theorem getFilesTotalSize_sum_witness:
  "(\<Sum>k \<in> fst ` set [(''a'', 100::nat), (''b'', 200)]. the (map_of [(''a'', 100::nat), (''b'', 200)] k))
     \<le> 2 ^ 53 \<and>
   getFilesTotalSize \<lparr>root = ''build'', sizes = Some [(''a'', 100), (''b'', 200)]\<rparr> =
     Num (\<Sum>k \<in> fst ` set [(''a'', 100::nat), (''b'', 200)]. the (map_of [(''a'', 100::nat), (''b'', 200)] k)) \<and>
   measureFileSizesAfterBuild (world0 [] None None (None, Some (stats0 [] []))) =
     Inr \<lparr>root = ''build'', sizes = Some [(''a'', 150), (''b'', 150)]\<rparr> \<and>
   TotalSizes (Quot (5404319552844595 / 2 ^ 54)) (Quot (5404319552844595 / 2 ^ 54)) \<in>
     set (fst (onFulfilled (world0 [] None None (None, Some (stats0 [] []))) paths0
       \<lparr>ra_stats = Some (stats0 [] []),
        ra_previousFileSizes = \<lparr>root = ''build'', sizes = Some [(''a'', 100), (''b'', 200)]\<rparr>,
        ra_warnings = []\<rparr>))"
proof -
  let ?w = "world0 [] None None (None, Some (stats0 [] []))"
  let ?obj = "[(''a'', 100::nat), (''b'', 200)]"
  let ?new = "\<lparr>root = ''build'', sizes = Some [(''a'', 150), (''b'', 150)]\<rparr>"
  let ?prev = "\<lparr>root = ''build'', sizes = Some ?obj\<rparr>"
  let ?args = "\<lparr>ra_stats = Some (stats0 [] []), ra_previousFileSizes = ?prev, ra_warnings = []\<rparr>"
  have h: "(\<Sum>k \<in> fst ` set ?obj. the (map_of ?obj k)) \<le> 2 ^ 53"
    by simp
  have m: "measureFileSizesAfterBuild ?w = Inr ?new"
    by (simp add: world0_def)
  note t = getFilesTotalSize_sum [OF h, of "''build''" ?w ?new ?args paths0]
  from t have 1: "getFilesTotalSize ?prev = Num (\<Sum>k \<in> fst ` set ?obj. the (map_of ?obj k))"
    and 2: "getFilesTotalSize ?prev = Num 300" and 3: "getFilesTotalSize ?new = Num 300"
    and 4: "per_1000 (Num 300) = Quot (5404319552844595 / 2 ^ 54)"
    by blast+
  from t m have "TotalSizes (per_1000 (getFilesTotalSize (ra_previousFileSizes ?args)))
      (per_1000 (getFilesTotalSize ?new)) \<in> set (fst (onFulfilled ?w paths0 ?args))"
    by blast
  then have 5: "TotalSizes (Quot (5404319552844595 / 2 ^ 54)) (Quot (5404319552844595 / 2 ^ 54)) \<in>
      set (fst (onFulfilled ?w paths0 ?args))"
    by (simp add: 2 3 4)
  from h 1 m 5 show ?thesis
    by blast
qed

theorem reported_total_counterexample:
  "getFilesTotalSize \<lparr>root = ''build'', sizes = Some [(''a'', 100), (''b'', 200)]\<rparr> = Num 300 \<and>
   fst (onFulfilled (world0 [] None None (None, Some (stats0 [] []))) paths0
       \<lparr>ra_stats = Some (stats0 [] []),
        ra_previousFileSizes = \<lparr>root = ''build'', sizes = Some [(''a'', 100), (''b'', 200)]\<rparr>,
        ra_warnings = []\<rparr>) =
     [Logged Info (''Compiled successfully.'' @ nl), MeasureFileSizes ''build'',
      TotalSizes (Quot (5404319552844595 / 2 ^ 54)) (Quot (5404319552844595 / 2 ^ 54)),
      Logged Log (''File sizes after gzip:'' @ nl), PrintFileSizes, ConsoleLog] \<and>
   (5404319552844595 / 2 ^ 54 :: rat) < 1"
  by (simp add: run_defs log2.simps Let_def)

text \<open>
  Beyond \<open>2 ^ 53\<close> the total is not the sum any more: adding one byte to \<open>2 ^ 53\<close> bytes leaves
  \<open>2 ^ 53\<close>.
\<close>

lemma getFilesTotalSize_rounds:
  "getFilesTotalSize \<lparr>root = r, sizes = Some [(''a'', 2 ^ 53), (''b'', 1)]\<rparr> = Num (2 ^ 53)"
  by (simp add: getFilesTotalSize_def Object_keys_def lookup_size_def plus_number_def
      nearest_double_def log2.simps round_half_even_def Let_def)

subsection \<open>The required files\<close>

text \<open>
  C4. When the HTML template and the entry script both exist, the guard lets the run go on
  to the promise chain and no configuration error is logged; when one of them is missing,
  the run ends with exit code 1 after the configuration error alone, and the compiler is
  never run.
\<close>

theorem required_files_guard:
  "(fileExists w (appHtml p) \<and> fileExists w (appIndexJs p) \<longrightarrow>
      run w p = chain w p \<and>
      take 2 (fst (run w p)) = [Logged Info ''Build server settings:'', CheckBrowsers]) \<and>
   (\<not> (fileExists w (appHtml p) \<and> fileExists w (appIndexJs p)) \<longrightarrow>
      run w p = ([Logged Error ''Either fields are missing:''], Exit 1) \<and>
      count_list (fst (run w p)) CompilerRun = 0)"
  by (simp add: run_def checkRequiredFiles_def chain_def after_events_def)

theorem required_files_guard_witness:
  "(fileExists (world0 [] None None (None, Some (stats0 [] []))) (appHtml paths0) \<and>
    fileExists (world0 [] None None (None, Some (stats0 [] []))) (appIndexJs paths0) \<and>
    take 2 (fst (run (world0 [] None None (None, Some (stats0 [] []))) paths0)) =
      [Logged Info ''Build server settings:'', CheckBrowsers]) \<and>
   (\<not> (fileExists ((world0 [] None None (None, Some (stats0 [] [])))
           \<lparr>fileExists := (\<lambda>f. f \<noteq> ''src/index.tsx'')\<rparr>) (appHtml paths0) \<and>
        fileExists ((world0 [] None None (None, Some (stats0 [] [])))
           \<lparr>fileExists := (\<lambda>f. f \<noteq> ''src/index.tsx'')\<rparr>) (appIndexJs paths0)) \<and>
    run ((world0 [] None None (None, Some (stats0 [] [])))
           \<lparr>fileExists := (\<lambda>f. f \<noteq> ''src/index.tsx'')\<rparr>) paths0 =
      ([Logged Error ''Either fields are missing:''], Exit 1) \<and>
    count_list (fst (run ((world0 [] None None (None, Some (stats0 [] [])))
           \<lparr>fileExists := (\<lambda>f. f \<noteq> ''src/index.tsx'')\<rparr>) paths0)) CompilerRun = 0)"
proof -
  let ?w = "world0 [] None None (None, Some (stats0 [] []))"
  let ?v = "?w\<lparr>fileExists := (\<lambda>f. f \<noteq> ''src/index.tsx'')\<rparr>"
  have present: "fileExists ?w (appHtml paths0) \<and> fileExists ?w (appIndexJs paths0)"
    by (simp add: world0_def)
  have missing: "\<not> (fileExists ?v (appHtml paths0) \<and> fileExists ?v (appIndexJs paths0))"
    by (simp add: paths0_def)
  from present required_files_guard [of ?w paths0]
  have "take 2 (fst (run ?w paths0)) = [Logged Info ''Build server settings:'', CheckBrowsers]"
    by blast
  moreover from missing required_files_guard [of ?v paths0]
  have "run ?v paths0 = ([Logged Error ''Either fields are missing:''], Exit 1) \<and>
        count_list (fst (run ?v paths0)) CompilerRun = 0"
    by blast
  ultimately show ?thesis
    using present missing by blast
qed

subsection \<open>Warnings and the environment variable CI\<close>

text \<open>
  C2, as amended. For messages without errors and with at least one warning: when CI is set
  to a non-empty string that is not "false" in any mix of upper and lower case, the promise
  of \<open>build\<close> is rejected with the warnings joined by blank lines; when CI is unset, empty, or
  "false" in any mix of case, and a requested stats write succeeds, the promise is resolved
  with the full warning sequence.
\<close>

theorem warnings_only_outcome:
  assumes "build_messages w = Inr msgs" and "errors msgs = []" and "warnings msgs \<noteq> []"
  shows "((\<exists>s. env_CI w = Some s \<and> s \<noteq> [] \<and> toLowerCase s \<noteq> ''false'') \<longrightarrow>
            snd (build w p prev) = Rejected (new_Error (join (warnings msgs) (nl @ nl)))) \<and>
         ((env_CI w = None \<or> env_CI w = Some [] \<or>
             (\<exists>s. env_CI w = Some s \<and> toLowerCase s = ''false'')) \<and>
          (writeStatsJson (process_argv w) \<longrightarrow>
             snd (compiler_run w) \<noteq> None \<and> bfj_write w = None) \<longrightarrow>
            snd (build w p prev) =
              Resolved \<lparr>ra_stats = snd (compiler_run w), ra_previousFileSizes = prev,
                ra_warnings = warnings msgs\<rparr>)"
proof (intro conjI impI)
  assume "\<exists>s. env_CI w = Some s \<and> s \<noteq> [] \<and> toLowerCase s \<noteq> ''false''"
  then have "strictCI (env_CI w)" by (simp add: strictCI_iff)
  with assms show "snd (build w p prev) = Rejected (new_Error (join (warnings msgs) (nl @ nl)))"
    by (rule build_warnings_strict)
next
  assume a: "(env_CI w = None \<or> env_CI w = Some [] \<or>
             (\<exists>s. env_CI w = Some s \<and> toLowerCase s = ''false'')) \<and>
          (writeStatsJson (process_argv w) \<longrightarrow>
             snd (compiler_run w) \<noteq> None \<and> bfj_write w = None)"
  then have "\<not> strictCI (env_CI w)" by (auto simp: strictCI_iff)
  with assms(1,2) a show "snd (build w p prev) =
              Resolved \<lparr>ra_stats = snd (compiler_run w), ra_previousFileSizes = prev,
                ra_warnings = warnings msgs\<rparr>"
    by (intro build_resolves) auto
qed

theorem warnings_only_outcome_witness:
  "snd (build (world0 [] (Some ''true'') None (None, Some (stats0 [] [''w1'', ''w2''])))
     paths0 \<lparr>root = ''build'', sizes = None\<rparr>) =
     Rejected (new_Error (''w1'' @ nl @ nl @ ''w2'')) \<and>
   snd (build (world0 [] None None (None, Some (stats0 [] [''w1'', ''w2''])))
     paths0 \<lparr>root = ''build'', sizes = None\<rparr>) =
     Resolved \<lparr>ra_stats = Some (stats0 [] [''w1'', ''w2'']),
       ra_previousFileSizes = \<lparr>root = ''build'', sizes = None\<rparr>,
       ra_warnings = [''w1'', ''w2'']\<rparr>"
proof -
  let ?m = "\<lparr>errors = [], warnings = [''w1'', ''w2'']\<rparr>"
  let ?res = "(None, Some (stats0 [] [''w1'', ''w2'']))"
  let ?prev = "\<lparr>root = ''build'', sizes = None\<rparr>"
  have m1: "build_messages (world0 [] (Some ''true'') None ?res) = Inr ?m"
    and m2: "build_messages (world0 [] None None ?res) = Inr ?m"
    by (simp_all add: build_messages_def world0_def stats0_def)
  have e: "errors ?m = []" and n: "warnings ?m \<noteq> []" by simp_all
  have s: "\<exists>s. env_CI (world0 [] (Some ''true'') None ?res) = Some s \<and> s \<noteq> [] \<and>
             toLowerCase s \<noteq> ''false''"
    by (simp add: world0_def toLowerCase_def toLowerChar_def)
  have u: "(env_CI (world0 [] None None ?res) = None \<or>
            env_CI (world0 [] None None ?res) = Some [] \<or>
            (\<exists>s. env_CI (world0 [] None None ?res) = Some s \<and> toLowerCase s = ''false'')) \<and>
           (writeStatsJson (process_argv (world0 [] None None ?res)) \<longrightarrow>
              snd (compiler_run (world0 [] None None ?res)) \<noteq> None \<and>
              bfj_write (world0 [] None None ?res) = None)"
    by (simp add: world0_def writeStatsJson_def)
  from warnings_only_outcome [OF m1 e n, of paths0 ?prev] s
  have "snd (build (world0 [] (Some ''true'') None ?res) paths0 ?prev) =
          Rejected (new_Error (join (warnings ?m) (nl @ nl)))"
    by blast
  moreover from warnings_only_outcome [OF m2 e n, of paths0 ?prev] u
  have "snd (build (world0 [] None None ?res) paths0 ?prev) =
          Resolved \<lparr>ra_stats = snd (compiler_run (world0 [] None None ?res)),
            ra_previousFileSizes = ?prev, ra_warnings = warnings ?m\<rparr>"
    by blast
  ultimately show ?thesis
    by (simp add: world0_def)
qed

theorem strict_ci_counterexample:
  "snd (build (world0 [] (Some ''FALSE'') None (None, Some (stats0 [] [''w1''])))
     paths0 \<lparr>root = ''build'', sizes = None\<rparr>) =
     Resolved \<lparr>ra_stats = Some (stats0 [] [''w1'']),
       ra_previousFileSizes = \<lparr>root = ''build'', sizes = None\<rparr>, ra_warnings = [''w1'']\<rparr> \<and>
   snd (build (world0 [] (Some []) None (None, Some (stats0 [] [''w1''])))
     paths0 \<lparr>root = ''build'', sizes = None\<rparr>) =
     Resolved \<lparr>ra_stats = Some (stats0 [] [''w1'']),
       ra_previousFileSizes = \<lparr>root = ''build'', sizes = None\<rparr>, ra_warnings = [''w1'']\<rparr>"
  by (simp add: run_defs)

subsection \<open>The exit code of a failure\<close>

text \<open>
  C3. The claim asks for a non-zero exit code on every failure that is not purely a
  type-check failure. The script does not keep to it: with TSC_COMPILE_ON_ERROR set to
  "true", a failure of the compiler call itself (an error handed to the callback, no
  statistics) is reported at warning level under the heading "Compiled with the following
  type errors", and the run ends with exit code 0.
\<close>

theorem tolerate_flag_bundler_failure:
  "run (world0 [] None (Some ''true'')
          (Some \<lparr>message = Some ''ENOSPC: no space left on device'', postcssNode = None\<rparr>, None))
     paths0 =
     ([Logged Info ''Build server settings:'', CheckBrowsers, MeasureFileSizes ''build'',
       EmptyDir ''build'', CopyPublicFolder,
       Logged Info ''Creating an optimized production build...'', CompilerRun,
       Logged Warn (''Compiled with the following type errors (you may want to check these before deploying your app):'' @ nl),
       PrintBuildError (new_Error ''ENOSPC: no space left on device'')],
      Exit 0)"
  by (simp add: run_defs)

subsection \<open>A failure of the compiler call\<close>

text \<open>
  C6, as amended. When the compiler hands an error to the callback and the error has a
  non-empty message, the messages given to \<open>formatWebpackMessages\<close> are that message as the
  only error and no warning, the message being followed by a line naming the CSS selector
  when the error has a postcssNode. When the error has no message or an empty one, nothing
  is wrapped: "Unknown error" is logged and the promise is rejected with the error itself.
\<close>

theorem transport_failure_wrapped:
  assumes "fst (compiler_run w) = Some err"
  shows "(\<forall>m. message err = Some m \<and> m \<noteq> [] \<and> postcssNode err = None \<longrightarrow>
            build_messages w = Inr (formatWebpackMessages w \<lparr>errors = [m], warnings = []\<rparr>)) \<and>
         (\<forall>m node. message err = Some m \<and> m \<noteq> [] \<and> postcssNode err = Some node \<longrightarrow>
            build_messages w = Inr (formatWebpackMessages w
              \<lparr>errors = [m @ nl @ ''CompileError: Begins at CSS selector '' @ js_string (selector node)],
               warnings = []\<rparr>)) \<and>
         (message err = None \<or> message err = Some [] \<longrightarrow>
            build_messages w = Inl ([Logged Error ''Unknown error''], Rejected err))"
  using assms by (auto simp: build_messages_def errMessage_def)

theorem transport_failure_wrapped_witness:
  "build_messages (world0 [] None None (Some \<lparr>message = Some ''boom'', postcssNode = None\<rparr>, None)) =
     Inr \<lparr>errors = [''boom''], warnings = []\<rparr> \<and>
   build_messages (world0 [] None None
      (Some \<lparr>message = Some ''boom'', postcssNode = Some \<lparr>selector = Some ''.title''\<rparr>\<rparr>, None)) =
     Inr \<lparr>errors = [''boom'' @ nl @ ''CompileError: Begins at CSS selector .title''], warnings = []\<rparr> \<and>
   build_messages (world0 [] None None (Some \<lparr>message = Some [], postcssNode = None\<rparr>, None)) =
     Inl ([Logged Error ''Unknown error''], Rejected \<lparr>message = Some [], postcssNode = None\<rparr>)"
proof -
  let ?e1 = "\<lparr>message = Some ''boom'', postcssNode = None\<rparr>"
  let ?e2 = "\<lparr>message = Some ''boom'', postcssNode = Some \<lparr>selector = Some ''.title''\<rparr>\<rparr>"
  let ?e3 = "\<lparr>message = Some [], postcssNode = None\<rparr>"
  have c: "fst (compiler_run (world0 [] None None (Some e, None))) = Some e" for e
    by (simp add: world0_def)
  have f: "formatWebpackMessages (world0 [] None None (Some e, None)) m = m" for e m
    by (simp add: world0_def)
  have "message ?e1 = Some ''boom'' \<and> ''boom'' \<noteq> [] \<and> postcssNode ?e1 = None"
    by simp
  with transport_failure_wrapped [OF c, of ?e1]
  have 1: "build_messages (world0 [] None None (Some ?e1, None)) =
             Inr \<lparr>errors = [''boom''], warnings = []\<rparr>"
    unfolding f by blast
  have "message ?e2 = Some ''boom'' \<and> ''boom'' \<noteq> [] \<and>
        postcssNode ?e2 = Some \<lparr>selector = Some ''.title''\<rparr>"
    by simp
  with transport_failure_wrapped [OF c, of ?e2]
  have 2: "build_messages (world0 [] None None (Some ?e2, None)) =
             Inr \<lparr>errors = [''boom'' @ nl @ ''CompileError: Begins at CSS selector '' @
               js_string (selector \<lparr>selector = Some ''.title''\<rparr>)], warnings = []\<rparr>"
    unfolding f by blast
  have "message ?e3 = None \<or> message ?e3 = Some []"
    by simp
  with transport_failure_wrapped [OF c, of ?e3]
  have 3: "build_messages (world0 [] None None (Some ?e3, None)) =
             Inl ([Logged Error ''Unknown error''], Rejected ?e3)"
    by blast
  from 1 2 3 show ?thesis
    by (simp add: js_string_def)
qed

theorem transport_failure_counterexample:
  "build_messages (world0 [] None None (Some \<lparr>message = Some [], postcssNode = None\<rparr>, None)) =
     Inl ([Logged Error ''Unknown error''], Rejected \<lparr>message = Some [], postcssNode = None\<rparr>) \<and>
   build_messages (world0 [] None None (Some \<lparr>message = None, postcssNode = None\<rparr>, None)) =
     Inl ([Logged Error ''Unknown error''], Rejected \<lparr>message = None, postcssNode = None\<rparr>)"
  by (simp add: build_messages_def world0_def)

subsection \<open>The stats file\<close>

text \<open>
  C7, as amended. \<open>build\<close> asks for a write of a stats file exactly when the flag \<open>--stats\<close>
  was given, the messages have no error, the warnings are not turned into a failure by CI,
  and the compiler returned its statistics; the file is bundle-stats.json in the build
  directory and its content is what \<open>stats.toJson()\<close> returns.
\<close>

theorem stats_written_iff:
  "BfjWrite path j \<in> set (fst (build w p prev)) \<longleftrightarrow>
     writeStatsJson (process_argv w) \<and>
     (\<exists>msgs st. build_messages w = Inr msgs \<and> errors msgs = [] \<and>
        \<not> (strictCI (env_CI w) \<and> warnings msgs \<noteq> []) \<and>
        snd (compiler_run w) = Some st \<and>
        path = appBuild p @ ''/bundle-stats.json'' \<and> j = toJson st)"
proof (cases "build_messages w")
  case (Inl a)
  then show ?thesis
    by (cases a) (auto simp: build_def build_messages_def split: option.splits if_splits)
next
  case (Inr msgs)
  show ?thesis
  proof (cases "snd (compiler_run w)")
    case None
    with Inr show ?thesis
      by (simp add: build_def build_settle_def Let_def)
  next
    case (Some st)
    with Inr show ?thesis
      by (auto simp: build_def build_settle_def Let_def)
  qed
qed

theorem stats_written_iff_witness:
  "BfjWrite ''build/bundle-stats.json'' ''{}'' \<in>
     set (fst (build (world0 [''--stats''] None None (None, Some (stats0 [] [''w1''])))
       paths0 \<lparr>root = ''build'', sizes = None\<rparr>)) \<and>
   BfjWrite ''build/bundle-stats.json'' ''{}'' \<notin>
     set (fst (build (world0 [] None None (None, Some (stats0 [] [''w1''])))
       paths0 \<lparr>root = ''build'', sizes = None\<rparr>))"
proof -
  let ?res = "(None, Some (stats0 [] [''w1'']))"
  let ?prev = "\<lparr>root = ''build'', sizes = None\<rparr>"
  have m: "build_messages (world0 args None None ?res) = Inr \<lparr>errors = [], warnings = [''w1'']\<rparr>" for args
    by (simp add: build_messages_def world0_def stats0_def)
  have "writeStatsJson (process_argv (world0 [''--stats''] None None ?res)) \<and>
     (\<exists>msgs st. build_messages (world0 [''--stats''] None None ?res) = Inr msgs \<and> errors msgs = [] \<and>
        \<not> (strictCI (env_CI (world0 [''--stats''] None None ?res)) \<and> warnings msgs \<noteq> []) \<and>
        snd (compiler_run (world0 [''--stats''] None None ?res)) = Some st \<and>
        ''build/bundle-stats.json'' = appBuild paths0 @ ''/bundle-stats.json'' \<and> ''{}'' = toJson st)"
    unfolding m by (simp add: world0_def writeStatsJson_def strictCI_def truthy_def paths0_def stats0_def)
  then have 1: "BfjWrite ''build/bundle-stats.json'' ''{}'' \<in>
     set (fst (build (world0 [''--stats''] None None ?res) paths0 ?prev))"
    unfolding stats_written_iff .
  have "\<not> writeStatsJson (process_argv (world0 [] None None ?res))"
    by (simp add: world0_def writeStatsJson_def)
  then have 2: "BfjWrite ''build/bundle-stats.json'' ''{}'' \<notin>
     set (fst (build (world0 [] None None ?res) paths0 ?prev))"
    unfolding stats_written_iff by simp
  from 1 2 show ?thesis ..
qed

theorem stats_flag_counterexample:
  "writeStatsJson (process_argv (world0 [''--stats''] None None (None, Some (stats0 [''e1''] [])))) \<and>
   filter isBfjWrite
     (fst (run (world0 [''--stats''] None None (None, Some (stats0 [''e1''] []))) paths0)) = []"
  by (simp add: run_defs)

subsection \<open>Exceptions of the steps before the compilation\<close>

text \<open>
  C9. The claim asks for a non-zero exit code, and a log of the message, for every
  exception that escapes the steps of the run. The script does not keep to it: with
  TSC_COMPILE_ON_ERROR set to "true", an exception of \<open>fs.emptyDirSync\<close> is taken by the
  handler of a rejected build, reported at warning level under the heading "Compiled with
  the following type errors", and the run ends with exit code 0 without the compiler
  having run.
\<close>

theorem early_exception_exit_zero:
  "run ((world0 [] None (Some ''true'') (None, Some (stats0 [] [])))
          \<lparr>emptyDirSync := Some (new_Error ''EACCES: permission denied'')\<rparr>) paths0 =
     ([Logged Info ''Build server settings:'', CheckBrowsers, MeasureFileSizes ''build'',
       EmptyDir ''build'',
       Logged Warn (''Compiled with the following type errors (you may want to check these before deploying your app):'' @ nl),
       PrintBuildError (new_Error ''EACCES: permission denied'')],
      Exit 0)"
  by (simp add: run_defs)

subsection \<open>A failed stats write\<close>

text \<open>
  C10. The claim asks for a rejected promise and a non-zero exit code when the write of the
  stats file fails after a clean compilation. The promise is rejected, but the script does
  not keep to the exit code: with TSC_COMPILE_ON_ERROR set to "true", the failed write is
  reported at warning level under the heading "Compiled with the following type errors",
  and the run ends with exit code 0.
\<close>

theorem stats_write_failure_exit_zero:
  "snd (build ((world0 [''--stats''] None (Some ''true'') (None, Some (stats0 [] [])))
          \<lparr>bfj_write := Some ''Error: ENOSPC: no space left on device''\<rparr>) paths0
          \<lparr>root = ''build'', sizes = Some [(''a'', 100), (''b'', 200)]\<rparr>) =
     Rejected (new_Error ''Error: ENOSPC: no space left on device'') \<and>
   run ((world0 [''--stats''] None (Some ''true'') (None, Some (stats0 [] [])))
          \<lparr>bfj_write := Some ''Error: ENOSPC: no space left on device''\<rparr>) paths0 =
     ([Logged Info ''Build server settings:'', CheckBrowsers, MeasureFileSizes ''build'',
       EmptyDir ''build'', CopyPublicFolder,
       Logged Info ''Creating an optimized production build...'', CompilerRun,
       BfjWrite ''build/bundle-stats.json'' ''{}'',
       Logged Warn (''Compiled with the following type errors (you may want to check these before deploying your app):'' @ nl),
       PrintBuildError (new_Error ''Error: ENOSPC: no space left on device'')],
      Exit 0)"
  by (simp add: run_defs)

end
